theory Spec2Isabelle
  imports Main "HOL-Library.Sublist"
begin

section \<open>Data model of cmd/grv/key_bindings.go\<close>

text \<open>
  \<open>type ActionType int\<close>: an integer with named constants, numbered by \<open>iota\<close> in the
  order of their declaration.
\<close>

type_synonym ActionType = int

definition ActionNone :: ActionType where "ActionNone = 0"
definition ActionExit :: ActionType where "ActionExit = 1"
definition ActionSuspend :: ActionType where "ActionSuspend = 2"
definition ActionRunCommand :: ActionType where "ActionRunCommand = 3"
definition ActionPrompt :: ActionType where "ActionPrompt = 4"
definition ActionSearchPrompt :: ActionType where "ActionSearchPrompt = 5"
definition ActionReverseSearchPrompt :: ActionType where "ActionReverseSearchPrompt = 6"
definition ActionFilterPrompt :: ActionType where "ActionFilterPrompt = 7"
definition ActionQuestionPrompt :: ActionType where "ActionQuestionPrompt = 8"
definition ActionBranchNamePrompt :: ActionType where "ActionBranchNamePrompt = 9"
definition ActionSearch :: ActionType where "ActionSearch = 10"
definition ActionReverseSearch :: ActionType where "ActionReverseSearch = 11"
definition ActionSearchFindNext :: ActionType where "ActionSearchFindNext = 12"
definition ActionSearchFindPrev :: ActionType where "ActionSearchFindPrev = 13"
definition ActionClearSearch :: ActionType where "ActionClearSearch = 14"
definition ActionShowStatus :: ActionType where "ActionShowStatus = 15"
definition ActionNextLine :: ActionType where "ActionNextLine = 16"
definition ActionPrevLine :: ActionType where "ActionPrevLine = 17"
definition ActionNextPage :: ActionType where "ActionNextPage = 18"
definition ActionPrevPage :: ActionType where "ActionPrevPage = 19"
definition ActionNextHalfPage :: ActionType where "ActionNextHalfPage = 20"
definition ActionPrevHalfPage :: ActionType where "ActionPrevHalfPage = 21"
definition ActionScrollRight :: ActionType where "ActionScrollRight = 22"
definition ActionScrollLeft :: ActionType where "ActionScrollLeft = 23"
definition ActionFirstLine :: ActionType where "ActionFirstLine = 24"
definition ActionLastLine :: ActionType where "ActionLastLine = 25"
definition ActionSelect :: ActionType where "ActionSelect = 26"
definition ActionNextView :: ActionType where "ActionNextView = 27"
definition ActionPrevView :: ActionType where "ActionPrevView = 28"
definition ActionFullScreenView :: ActionType where "ActionFullScreenView = 29"
definition ActionToggleViewLayout :: ActionType where "ActionToggleViewLayout = 30"
definition ActionNextTab :: ActionType where "ActionNextTab = 31"
definition ActionPrevTab :: ActionType where "ActionPrevTab = 32"
definition ActionRemoveView :: ActionType where "ActionRemoveView = 33"
definition ActionAddFilter :: ActionType where "ActionAddFilter = 34"
definition ActionRemoveFilter :: ActionType where "ActionRemoveFilter = 35"
definition ActionCenterView :: ActionType where "ActionCenterView = 36"
definition ActionScrollCursorTop :: ActionType where "ActionScrollCursorTop = 37"
definition ActionScrollCursorBottom :: ActionType where "ActionScrollCursorBottom = 38"
definition ActionCursorTopView :: ActionType where "ActionCursorTopView = 39"
definition ActionCursorMiddleView :: ActionType where "ActionCursorMiddleView = 40"
definition ActionCursorBottomView :: ActionType where "ActionCursorBottomView = 41"
definition ActionNewTab :: ActionType where "ActionNewTab = 42"
definition ActionRemoveTab :: ActionType where "ActionRemoveTab = 43"
definition ActionAddView :: ActionType where "ActionAddView = 44"
definition ActionSplitView :: ActionType where "ActionSplitView = 45"
definition ActionMouseSelect :: ActionType where "ActionMouseSelect = 46"
definition ActionMouseScrollDown :: ActionType where "ActionMouseScrollDown = 47"
definition ActionMouseScrollUp :: ActionType where "ActionMouseScrollUp = 48"
definition ActionCheckoutRef :: ActionType where "ActionCheckoutRef = 49"
definition ActionCheckoutCommit :: ActionType where "ActionCheckoutCommit = 50"
definition ActionCreateBranch :: ActionType where "ActionCreateBranch = 51"
definition ActionCreateContextMenu :: ActionType where "ActionCreateContextMenu = 52"
definition ActionCreateCommandOutputView :: ActionType where "ActionCreateCommandOutputView = 53"
definition ActionShowAvailableActions :: ActionType where "ActionShowAvailableActions = 54"
definition ActionStageFile :: ActionType where "ActionStageFile = 55"
definition ActionUnstageFile :: ActionType where "ActionUnstageFile = 56"
definition ActionCommit :: ActionType where "ActionCommit = 57"
definition ActionShowHelpView :: ActionType where "ActionShowHelpView = 58"

text \<open>
  Modelled from the spec: \<open>ViewID\<close> is declared outside this file. The spec describes it
  as an opaque enumerable identifying a UI view, plus one reserved catch-all scope
  (\<open>ViewAll\<close>). The views that key_bindings.go mentions by name are constructors of their
  own; every other view is \<open>ViewOther n\<close>.
\<close>

datatype ViewID = ViewAll | ViewMain | ViewRef | ViewCommit | ViewGitStatus | ViewOther nat

type_synonym ViewHierarchy = "ViewID list"

datatype BindingType = BtAction | BtKeystring

record Binding =
  bindingType :: BindingType
  actionType :: ActionType
  keystring :: string

definition newActionBinding :: "ActionType \<Rightarrow> Binding" where
  "newActionBinding a = \<lparr>bindingType = BtAction, actionType = a, keystring = []\<rparr>"

definition newKeystringBinding :: "string \<Rightarrow> Binding" where
  "newKeystringBinding k = \<lparr>bindingType = BtKeystring, actionType = ActionNone, keystring = k\<rparr>"

record BoundKeyString =
  keystring :: string
  userDefinedBinding :: bool

datatype ActionCategory =
    ActionCategoryNone
  | ActionCategoryMovement
  | ActionCategorySearch
  | ActionCategoryViewNavigation
  | ActionCategoryGeneral
  | ActionCategoryViewSpecific

record ActionDescriptor =
  actionKey :: string
  actionCategory :: ActionCategory
  promptAction :: bool
  description :: string
  keyBindings :: "(ViewID \<times> string list) list"

subsection \<open>The action table\<close>

text \<open>
  \<open>actionDescriptors\<close>, entry by entry in the order of the map literal; a field the literal
  leaves out has Go's zero value. The three prompt texts \<open>PromptText\<close>,
  \<open>SearchPromptText\<close> and \<open>ReverseSearchPromptText\<close> are constants declared outside this
  file, so the table takes them as parameters.
\<close>

definition actionDescriptors :: "string \<Rightarrow> string \<Rightarrow> string \<Rightarrow> (ActionType \<times> ActionDescriptor) list" where
  "actionDescriptors PromptText SearchPromptText ReverseSearchPromptText = [
      (ActionNone, \<lparr>actionKey = [], actionCategory = ActionCategoryNone, promptAction = False,
         description = ''Perform no action (NOP)'',
         keyBindings = []\<rparr>),
      (ActionExit, \<lparr>actionKey = ''<grv-exit>'', actionCategory = ActionCategoryGeneral, promptAction = False,
         description = ''Exit GRV'',
         keyBindings = []\<rparr>),
      (ActionSuspend, \<lparr>actionKey = ''<grv-suspend>'', actionCategory = ActionCategoryGeneral, promptAction = False,
         description = ''Suspend GRV'',
         keyBindings = [(ViewAll, [''<C-z>''])]\<rparr>),
      (ActionRunCommand, \<lparr>actionKey = [], actionCategory = ActionCategoryGeneral, promptAction = False,
         description = ''Run a shell command'',
         keyBindings = []\<rparr>),
      (ActionPrompt, \<lparr>actionKey = ''<grv-prompt>'', actionCategory = ActionCategoryGeneral, promptAction = True,
         description = ''GRV Command prompt'',
         keyBindings = [(ViewMain, [PromptText])]\<rparr>),
      (ActionSearchPrompt, \<lparr>actionKey = ''<grv-search-prompt>'', actionCategory = ActionCategorySearch, promptAction = True,
         description = ''Search forwards'',
         keyBindings = [(ViewMain, [SearchPromptText])]\<rparr>),
      (ActionReverseSearchPrompt, \<lparr>actionKey = ''<grv-reverse-search-prompt>'', actionCategory = ActionCategorySearch, promptAction = True,
         description = ''Search backwards'',
         keyBindings = [(ViewMain, [ReverseSearchPromptText])]\<rparr>),
      (ActionFilterPrompt, \<lparr>actionKey = ''<grv-filter-prompt>'', actionCategory = ActionCategoryViewSpecific, promptAction = True,
         description = ''Add filter'',
         keyBindings = [(ViewCommit, [''<C-q>'']), (ViewRef, [''<C-q>''])]\<rparr>),
      (ActionQuestionPrompt, \<lparr>actionKey = [], actionCategory = ActionCategoryGeneral, promptAction = True,
         description = ''Prompt the user with a question'',
         keyBindings = []\<rparr>),
      (ActionBranchNamePrompt, \<lparr>actionKey = ''<grv-branch-name-prompt>'', actionCategory = ActionCategoryGeneral, promptAction = True,
         description = ''Create a new branch'',
         keyBindings = [(ViewRef, [''b'']), (ViewCommit, [''b''])]\<rparr>),
      (ActionSearch, \<lparr>actionKey = [], actionCategory = ActionCategorySearch, promptAction = False,
         description = ''Perform search forwards'',
         keyBindings = []\<rparr>),
      (ActionReverseSearch, \<lparr>actionKey = [], actionCategory = ActionCategorySearch, promptAction = False,
         description = ''Perform search backwards'',
         keyBindings = []\<rparr>),
      (ActionSearchFindNext, \<lparr>actionKey = ''<grv-search-find-next>'', actionCategory = ActionCategorySearch, promptAction = False,
         description = ''Move to next search match'',
         keyBindings = [(ViewAll, [''n''])]\<rparr>),
      (ActionSearchFindPrev, \<lparr>actionKey = ''<grv-search-find-prev>'', actionCategory = ActionCategorySearch, promptAction = False,
         description = ''Move to previous search match'',
         keyBindings = [(ViewAll, [''N''])]\<rparr>),
      (ActionClearSearch, \<lparr>actionKey = ''<grv-clear-search>'', actionCategory = ActionCategorySearch, promptAction = False,
         description = ''Clear search'',
         keyBindings = []\<rparr>),
      (ActionShowStatus, \<lparr>actionKey = [], actionCategory = ActionCategoryGeneral, promptAction = False,
         description = ''Display message in status bar'',
         keyBindings = []\<rparr>),
      (ActionNextLine, \<lparr>actionKey = ''<grv-next-line>'', actionCategory = ActionCategoryMovement, promptAction = False,
         description = ''Move down one line'',
         keyBindings = [(ViewAll, [''<Down>'', ''j''])]\<rparr>),
      (ActionPrevLine, \<lparr>actionKey = ''<grv-prev-line>'', actionCategory = ActionCategoryMovement, promptAction = False,
         description = ''Move up one line'',
         keyBindings = [(ViewAll, [''<Up>'', ''k''])]\<rparr>),
      (ActionNextPage, \<lparr>actionKey = ''<grv-next-page>'', actionCategory = ActionCategoryMovement, promptAction = False,
         description = ''Move one page down'',
         keyBindings = [(ViewAll, [''<PageDown>'', ''<C-f>''])]\<rparr>),
      (ActionPrevPage, \<lparr>actionKey = ''<grv-prev-page>'', actionCategory = ActionCategoryMovement, promptAction = False,
         description = ''Move one page up'',
         keyBindings = [(ViewAll, [''<PageUp>'', ''<C-b>''])]\<rparr>),
      (ActionNextHalfPage, \<lparr>actionKey = ''<grv-next-half-page>'', actionCategory = ActionCategoryMovement, promptAction = False,
         description = ''Move half page down'',
         keyBindings = [(ViewAll, [''<C-d>''])]\<rparr>),
      (ActionPrevHalfPage, \<lparr>actionKey = ''<grv-prev-half-page>'', actionCategory = ActionCategoryMovement, promptAction = False,
         description = ''Move half page up'',
         keyBindings = [(ViewAll, [''<C-u>''])]\<rparr>),
      (ActionScrollRight, \<lparr>actionKey = ''<grv-scroll-right>'', actionCategory = ActionCategoryMovement, promptAction = False,
         description = ''Scroll right'',
         keyBindings = [(ViewAll, [''<Right>'', ''l''])]\<rparr>),
      (ActionScrollLeft, \<lparr>actionKey = ''<grv-scroll-left>'', actionCategory = ActionCategoryMovement, promptAction = False,
         description = ''Scroll left'',
         keyBindings = [(ViewAll, [''<Left>'', ''h''])]\<rparr>),
      (ActionFirstLine, \<lparr>actionKey = ''<grv-first-line>'', actionCategory = ActionCategoryMovement, promptAction = False,
         description = ''Move to first line'',
         keyBindings = [(ViewAll, [''gg''])]\<rparr>),
      (ActionLastLine, \<lparr>actionKey = ''<grv-last-line>'', actionCategory = ActionCategoryMovement, promptAction = False,
         description = ''Move to last line'',
         keyBindings = [(ViewAll, [''G''])]\<rparr>),
      (ActionSelect, \<lparr>actionKey = ''<grv-select>'', actionCategory = ActionCategoryGeneral, promptAction = False,
         description = ''Select item (opens listener view if none exists)'',
         keyBindings = [(ViewAll, [''<Enter>''])]\<rparr>),
      (ActionNextView, \<lparr>actionKey = ''<grv-next-view>'', actionCategory = ActionCategoryViewNavigation, promptAction = False,
         description = ''Move to next view'',
         keyBindings = [(ViewAll, [''<C-w>w'', ''<C-w><C-w>'', ''<Tab>''])]\<rparr>),
      (ActionPrevView, \<lparr>actionKey = ''<grv-prev-view>'', actionCategory = ActionCategoryViewNavigation, promptAction = False,
         description = ''Move to previous view'',
         keyBindings = [(ViewAll, [''<C-w>W'', ''<S-Tab>''])]\<rparr>),
      (ActionFullScreenView, \<lparr>actionKey = ''<grv-full-screen-view>'', actionCategory = ActionCategoryViewNavigation, promptAction = False,
         description = ''Toggle current view full screen'',
         keyBindings = [(ViewAll, [''<C-w>o'', ''<C-w><C-o>'', ''f''])]\<rparr>),
      (ActionToggleViewLayout, \<lparr>actionKey = ''<grv-toggle-view-layout>'', actionCategory = ActionCategoryViewNavigation, promptAction = False,
         description = ''Toggle view layout'',
         keyBindings = [(ViewAll, [''<C-w>t''])]\<rparr>),
      (ActionNextTab, \<lparr>actionKey = ''<grv-next-tab>'', actionCategory = ActionCategoryViewNavigation, promptAction = False,
         description = ''Move to next tab'',
         keyBindings = [(ViewAll, [''gt''])]\<rparr>),
      (ActionPrevTab, \<lparr>actionKey = ''<grv-prev-tab>'', actionCategory = ActionCategoryViewNavigation, promptAction = False,
         description = ''Move to previous tab'',
         keyBindings = [(ViewAll, [''gT''])]\<rparr>),
      (ActionRemoveView, \<lparr>actionKey = ''<grv-remove-view>'', actionCategory = ActionCategoryViewNavigation, promptAction = False,
         description = ''Close view (or close tab if empty)'',
         keyBindings = [(ViewAll, [''q''])]\<rparr>),
      (ActionAddFilter, \<lparr>actionKey = [], actionCategory = ActionCategoryViewSpecific, promptAction = False,
         description = ''Add filter'',
         keyBindings = []\<rparr>),
      (ActionRemoveFilter, \<lparr>actionKey = ''<grv-remove-filter>'', actionCategory = ActionCategoryViewSpecific, promptAction = False,
         description = ''Remove filter'',
         keyBindings = [(ViewCommit, [''<C-r>'']), (ViewRef, [''<C-r>''])]\<rparr>),
      (ActionCenterView, \<lparr>actionKey = ''<grv-center-view>'', actionCategory = ActionCategoryMovement, promptAction = False,
         description = ''Center view'',
         keyBindings = [(ViewAll, [''z.'', ''zz''])]\<rparr>),
      (ActionScrollCursorTop, \<lparr>actionKey = ''<grv-scroll-cursor-top>'', actionCategory = ActionCategoryMovement, promptAction = False,
         description = ''Scroll the screen so cursor is at the top'',
         keyBindings = [(ViewAll, [''zt''])]\<rparr>),
      (ActionScrollCursorBottom, \<lparr>actionKey = ''<grv-scroll-cursor-bottom>'', actionCategory = ActionCategoryMovement, promptAction = False,
         description = ''Scroll the screen so cursor is at the bottom'',
         keyBindings = [(ViewAll, [''zb''])]\<rparr>),
      (ActionCursorTopView, \<lparr>actionKey = ''<grv-cursor-top-view>'', actionCategory = ActionCategoryMovement, promptAction = False,
         description = ''Move to the first line of the page'',
         keyBindings = [(ViewAll, [''H''])]\<rparr>),
      (ActionCursorMiddleView, \<lparr>actionKey = ''<grv-cursor-middle-view>'', actionCategory = ActionCategoryMovement, promptAction = False,
         description = ''Move to the middle line of the page'',
         keyBindings = [(ViewAll, [''M''])]\<rparr>),
      (ActionCursorBottomView, \<lparr>actionKey = ''<grv-cursor-bottom-view>'', actionCategory = ActionCategoryMovement, promptAction = False,
         description = ''Move to the last line of the page'',
         keyBindings = [(ViewAll, [''L''])]\<rparr>),
      (ActionNewTab, \<lparr>actionKey = [], actionCategory = ActionCategoryGeneral, promptAction = False,
         description = ''Add a new tab'',
         keyBindings = []\<rparr>),
      (ActionRemoveTab, \<lparr>actionKey = [], actionCategory = ActionCategoryGeneral, promptAction = False,
         description = ''Remove the active tab'',
         keyBindings = []\<rparr>),
      (ActionAddView, \<lparr>actionKey = [], actionCategory = ActionCategoryGeneral, promptAction = False,
         description = ''Add a new view'',
         keyBindings = []\<rparr>),
      (ActionSplitView, \<lparr>actionKey = [], actionCategory = ActionCategoryGeneral, promptAction = False,
         description = ''Split the current view with a new view'',
         keyBindings = []\<rparr>),
      (ActionMouseSelect, \<lparr>actionKey = [], actionCategory = ActionCategoryGeneral, promptAction = False,
         description = ''Mouse select'',
         keyBindings = []\<rparr>),
      (ActionMouseScrollDown, \<lparr>actionKey = [], actionCategory = ActionCategoryGeneral, promptAction = False,
         description = ''Mouse scroll down'',
         keyBindings = []\<rparr>),
      (ActionMouseScrollUp, \<lparr>actionKey = [], actionCategory = ActionCategoryGeneral, promptAction = False,
         description = ''Mouse scroll up'',
         keyBindings = []\<rparr>),
      (ActionCheckoutRef, \<lparr>actionKey = ''<grv-checkout-ref>'', actionCategory = ActionCategoryViewSpecific, promptAction = False,
         description = ''Checkout ref'',
         keyBindings = [(ViewRef, [''c''])]\<rparr>),
      (ActionCheckoutCommit, \<lparr>actionKey = ''<grv-checkout-commit>'', actionCategory = ActionCategoryViewSpecific, promptAction = False,
         description = ''Checkout commit'',
         keyBindings = [(ViewCommit, [''c''])]\<rparr>),
      (ActionCreateBranch, \<lparr>actionKey = [], actionCategory = ActionCategoryGeneral, promptAction = False,
         description = ''Create a branch'',
         keyBindings = []\<rparr>),
      (ActionCreateContextMenu, \<lparr>actionKey = [], actionCategory = ActionCategoryGeneral, promptAction = False,
         description = ''Create a context menu'',
         keyBindings = []\<rparr>),
      (ActionCreateCommandOutputView, \<lparr>actionKey = [], actionCategory = ActionCategoryGeneral, promptAction = False,
         description = ''Create a command output view'',
         keyBindings = []\<rparr>),
      (ActionShowAvailableActions, \<lparr>actionKey = ''<grv-show-available-actions>'', actionCategory = ActionCategoryGeneral, promptAction = False,
         description = ''Show available actions for the selected row'',
         keyBindings = [(ViewAll, [''<C-a>''])]\<rparr>),
      (ActionStageFile, \<lparr>actionKey = ''<grv-stage-file>'', actionCategory = ActionCategoryViewSpecific, promptAction = False,
         description = ''Stage'',
         keyBindings = [(ViewGitStatus, [''a''])]\<rparr>),
      (ActionUnstageFile, \<lparr>actionKey = ''<grv-unstage-file>'', actionCategory = ActionCategoryViewSpecific, promptAction = False,
         description = ''Unstage'',
         keyBindings = [(ViewGitStatus, [''u''])]\<rparr>),
      (ActionCommit, \<lparr>actionKey = ''<grv-action-commit>'', actionCategory = ActionCategoryViewSpecific, promptAction = False,
         description = ''Commit'',
         keyBindings = [(ViewGitStatus, [''c''])]\<rparr>),
      (ActionShowHelpView, \<lparr>actionKey = ''<grv-show-help>'', actionCategory = ActionCategoryGeneral, promptAction = False,
         description = ''Show the help view'',
         keyBindings = []\<rparr>)
   ]"

text \<open>
  \<open>init\<close> fills \<open>actionKeys\<close> with every non-empty action key of the table. No action key
  depends on the prompt texts (lemma \<open>actionKeys_init_prompt_texts\<close> below), so the global map is
  built from the table at arbitrary prompt texts.
\<close>

definition actionKeys_init :: "(ActionType \<times> ActionDescriptor) list \<Rightarrow> (string \<times> ActionType) list" where
  "actionKeys_init ds =
     concat (map (\<lambda>(a, d). if actionKey d \<noteq> [] then [(actionKey d, a)] else []) ds)"

definition actionKeys :: "string \<rightharpoonup> ActionType" where
  "actionKeys = map_of (actionKeys_init (actionDescriptors [] [] []))"

subsection \<open>The prefix tree\<close>

text \<open>
  Modelled from the spec: the prefix tree \<open>pt.Trie\<close> comes from the imported package
  \<open>patricia\<close>, which is not part of this file. It is modelled by its contract, the one
  section 4.1 of the spec gives for the binding index: a store of (sequence, binding)
  entries with insert-or-overwrite (\<open>Set\<close>), exact lookup (\<open>Get\<close>, absent is \<open>None\<close>
  for Go's \<open>nil\<close>), deletion that reports whether an entry was removed (\<open>Delete\<close>), and
  the test whether some stored sequence has the given one as a prefix
  (\<open>MatchSubtree\<close>). Sequences are compared byte by byte, as \<open>pt.Prefix\<close> does. The
  contract speaks of the sequences that can be keys, which the spec takes to be non-empty;
  what the package answers for the empty sequence on a tree emptied by deletions is
  outside it.
\<close>

type_synonym Trie = "(string \<times> Binding) list"

definition NewTrie :: Trie where
  "NewTrie = []"

definition trie_Get :: "Trie \<Rightarrow> string \<Rightarrow> Binding option" where
  "trie_Get t key = map_of t key"

definition trie_Set :: "string \<Rightarrow> Binding \<Rightarrow> Trie \<Rightarrow> Trie" where
  "trie_Set key item t = (key, item) # filter (\<lambda>e. fst e \<noteq> key) t"

definition trie_Delete :: "string \<Rightarrow> Trie \<Rightarrow> bool \<times> Trie" where
  "trie_Delete key t = (list_ex (\<lambda>e. fst e = key) t, filter (\<lambda>e. fst e \<noteq> key) t)"

definition trie_MatchSubtree :: "Trie \<Rightarrow> string \<Rightarrow> bool" where
  "trie_MatchSubtree t key = list_ex (\<lambda>e. prefix key (fst e)) t"

subsection \<open>The manager\<close>

record KeyBindingManager =
  bindings :: "ViewID \<rightharpoonup> Trie"
  helpFormat :: "ActionType \<rightharpoonup> (ViewID \<rightharpoonup> BoundKeyString list)"
  userDefinedBinding :: bool

text \<open>
  \<open>Binding\<close>: the loop over \<open>append(viewHierarchy, ViewAll)\<close>. The first exact entry
  returns at once with \<open>false\<close>; a subtree match only sets \<open>isPrefix\<close> and the scan goes on.
\<close>

fun Binding_loop :: "KeyBindingManager \<Rightarrow> string \<Rightarrow> ViewID list \<Rightarrow> bool \<Rightarrow> Binding \<times> bool" where
  "Binding_loop m key [] isPrefix = (newActionBinding ActionNone, isPrefix)"
| "Binding_loop m key (viewID # rest) isPrefix =
     (case bindings m viewID of
        None \<Rightarrow> Binding_loop m key rest isPrefix
      | Some viewBindings \<Rightarrow>
          (case trie_Get viewBindings key of
             Some binding \<Rightarrow> (binding, False)
           | None \<Rightarrow>
               if trie_MatchSubtree viewBindings key
               then Binding_loop m key rest True
               else Binding_loop m key rest isPrefix))"

definition Binding :: "KeyBindingManager \<Rightarrow> ViewHierarchy \<Rightarrow> string \<Rightarrow> Binding \<times> bool" where
  "Binding m viewHierarchy key = Binding_loop m key (viewHierarchy @ [ViewAll]) False"

definition getOrCreateViewBindings :: "ViewID \<Rightarrow> KeyBindingManager \<Rightarrow> Trie \<times> KeyBindingManager" where
  "getOrCreateViewBindings viewID m =
     (case bindings m viewID of
        Some viewBindings \<Rightarrow> (viewBindings, m)
      | None \<Rightarrow> (NewTrie, m\<lparr>bindings := (bindings m)(viewID \<mapsto> NewTrie)\<rparr>))"

definition updateHelpFormat :: "ActionType \<Rightarrow> ViewID \<Rightarrow> string \<Rightarrow> KeyBindingManager \<Rightarrow> KeyBindingManager" where
  "updateHelpFormat a viewID key m =
     (if prefix ''<grv-'' key then m
      else
        let viewBindings = (case helpFormat m a of None \<Rightarrow> Map.empty | Some vb \<Rightarrow> vb);
            keystrings = (case viewBindings viewID of None \<Rightarrow> [] | Some ks \<Rightarrow> ks)
        in m\<lparr>helpFormat := (helpFormat m)(a \<mapsto> viewBindings(viewID \<mapsto>
               keystrings @ [\<lparr>keystring = key,
                              userDefinedBinding = KeyBindingManager.userDefinedBinding m\<rparr>]))\<rparr>)"

definition SetActionBinding :: "ViewID \<Rightarrow> string \<Rightarrow> ActionType \<Rightarrow> KeyBindingManager \<Rightarrow> KeyBindingManager" where
  "SetActionBinding viewID key a m =
     (let (viewBindings, m1) = getOrCreateViewBindings viewID m;
          m2 = m1\<lparr>bindings := (bindings m1)(viewID \<mapsto> trie_Set key (newActionBinding a) viewBindings)\<rparr>
      in updateHelpFormat a viewID key m2)"

text \<open>
  \<open>removeHelpFormatEntry\<close>: the action whose bucket is pruned is the binding's own action
  for an action binding, and for a key string binding the action its target names in
  \<open>actionKeys\<close>, or the zero value \<open>ActionNone\<close> of the local variable when it names none.
\<close>

definition removeHelpFormatEntry :: "Binding \<Rightarrow> ViewID \<Rightarrow> string \<Rightarrow> KeyBindingManager \<Rightarrow> KeyBindingManager" where
  "removeHelpFormatEntry binding viewID key m =
     (let a = (case bindingType binding of
                 BtAction \<Rightarrow> actionType binding
               | BtKeystring \<Rightarrow>
                   (case actionKeys (Binding.keystring binding) of
                      Some mappedActionType \<Rightarrow> mappedActionType
                    | None \<Rightarrow> ActionNone))
      in case helpFormat m a of
           None \<Rightarrow> m
         | Some viewBindings \<Rightarrow>
             (case viewBindings viewID of
                None \<Rightarrow> m
              | Some keystrings \<Rightarrow>
                  m\<lparr>helpFormat := (helpFormat m)(a \<mapsto> viewBindings(viewID \<mapsto>
                       filter (\<lambda>k. BoundKeyString.keystring k \<noteq> key) keystrings))\<rparr>))"

text \<open>
  \<open>RemoveBinding\<close> returns \<open>removed\<close> together with the updated manager. The binding is
  looked up through \<open>Binding\<close> with the one-element hierarchy \<open>[viewID]\<close>, before the
  entry is deleted.
\<close>

definition RemoveBinding :: "ViewID \<Rightarrow> string \<Rightarrow> KeyBindingManager \<Rightarrow> bool \<times> KeyBindingManager" where
  "RemoveBinding viewID key m =
     (let binding = fst (Binding m [viewID] key);
          (removed, m1) =
            (case bindings m viewID of
               None \<Rightarrow> (False, m)
             | Some viewBindings \<Rightarrow>
                 (let (deleted, viewBindings') = trie_Delete key viewBindings
                  in (deleted, m\<lparr>bindings := (bindings m)(viewID \<mapsto> viewBindings')\<rparr>)));
          m2 = (if actionType binding \<noteq> ActionNone \<or> Binding.keystring binding \<noteq> []
                then removeHelpFormatEntry binding viewID key m1
                else m1)
      in (removed, m2))"

definition SetKeystringBinding :: "ViewID \<Rightarrow> string \<Rightarrow> string \<Rightarrow> KeyBindingManager \<Rightarrow> KeyBindingManager" where
  "SetKeystringBinding viewID key mappedKeystring m =
     (let m0 = snd (RemoveBinding viewID key m);
          (viewBindings, m1) = getOrCreateViewBindings viewID m0;
          m2 = m1\<lparr>bindings := (bindings m1)(viewID \<mapsto>
                 trie_Set key (newKeystringBinding mappedKeystring) viewBindings)\<rparr>
      in case actionKeys mappedKeystring of
           Some a \<Rightarrow> updateHelpFormat a viewID key m2
         | None \<Rightarrow> m2)"

definition KeyStrings :: "KeyBindingManager \<Rightarrow> ActionType \<Rightarrow> ViewID \<Rightarrow> BoundKeyString list" where
  "KeyStrings m a viewID =
     (case helpFormat m a of
        None \<Rightarrow> []
      | Some viewBindings \<Rightarrow> (case viewBindings viewID of None \<Rightarrow> [] | Some keystrings \<Rightarrow> keystrings))"

subsection \<open>Construction\<close>

text \<open>
  \<open>setDefaultKeyBindings\<close>: two loops of \<open>SetActionBinding\<close> calls, the first over
  \<open>actionKeys\<close>, the second over the descriptors, their views and their keys. Go ranges
  over a map in an unspecified order; the model ranges in the order of the table.
\<close>

definition setDefaultKeyBindings :: "string \<Rightarrow> string \<Rightarrow> string \<Rightarrow> KeyBindingManager \<Rightarrow> KeyBindingManager" where
  "setDefaultKeyBindings PromptText SearchPromptText ReverseSearchPromptText m =
     (let ds = actionDescriptors PromptText SearchPromptText ReverseSearchPromptText;
          m1 = fold (\<lambda>(key, a). SetActionBinding ViewAll key a) (actionKeys_init ds) m
      in fold (\<lambda>(a, d).
                fold (\<lambda>(viewID, keys). fold (\<lambda>key. SetActionBinding viewID key a) keys)
                     (keyBindings d))
              ds m1)"

text \<open>The calls of \<open>SetActionBinding\<close> that \<open>setDefaultKeyBindings\<close> makes, in their order.\<close>

definition defaultBindings :: "(ActionType \<times> ActionDescriptor) list \<Rightarrow> (ViewID \<times> string \<times> ActionType) list" where
  "defaultBindings ds =
     map (\<lambda>(key, a). (ViewAll, key, a)) (actionKeys_init ds) @
     concat (map (\<lambda>(a, d). concat (map (\<lambda>(viewID, keys). map (\<lambda>key. (viewID, key, a)) keys) (keyBindings d))) ds)"

definition NewKeyBindingManager :: "string \<Rightarrow> string \<Rightarrow> string \<Rightarrow> KeyBindingManager" where
  "NewKeyBindingManager PromptText SearchPromptText ReverseSearchPromptText =
     (let m = \<lparr>bindings = Map.empty, helpFormat = Map.empty, userDefinedBinding = False\<rparr>;
          m' = setDefaultKeyBindings PromptText SearchPromptText ReverseSearchPromptText m
      in m'\<lparr>userDefinedBinding := True\<rparr>)"

text \<open>
  The states a client can reach: the constructor's result, then any sequence of calls of
  the three mutating methods of the \<open>KeyBindings\<close> interface.
\<close>

inductive reachable :: "KeyBindingManager \<Rightarrow> bool" where
  constructed: "reachable (NewKeyBindingManager p sp rp)"
| set_action: "reachable m \<Longrightarrow> reachable (SetActionBinding viewID key a m)"
| set_keystring: "reachable m \<Longrightarrow> reachable (SetKeystringBinding viewID key mappedKeystring m)"
| removed: "reachable m \<Longrightarrow> reachable (snd (RemoveBinding viewID key m))"

text \<open>The exact entry of a scope's index, absent when the scope has no index yet.\<close>

definition lookup :: "KeyBindingManager \<Rightarrow> ViewID \<Rightarrow> string \<Rightarrow> Binding option" where
  "lookup m viewID key =
     (case bindings m viewID of None \<Rightarrow> None | Some viewBindings \<Rightarrow> trie_Get viewBindings key)"

text \<open>Whether a scope's index holds a sequence that extends \<open>key\<close>.\<close>

definition hasPrefix :: "KeyBindingManager \<Rightarrow> ViewID \<Rightarrow> string \<Rightarrow> bool" where
  "hasPrefix m viewID key =
     (case bindings m viewID of None \<Rightarrow> False | Some viewBindings \<Rightarrow> trie_MatchSubtree viewBindings key)"

section \<open>Properties\<close>

lemma actionKeys_init_prompt_texts:
  "actionKeys_init (actionDescriptors p sp rp) = actionKeys_init (actionDescriptors [] [] [])"
  by (simp add: actionDescriptors_def actionKeys_init_def)

text \<open>No two actions share an action key: the order in which \<open>init\<close> ranges does not matter.\<close>

lemma actionKeys_distinct: "distinct (map fst (actionKeys_init (actionDescriptors p sp rp)))"
  by (simp add: actionKeys_init_def actionDescriptors_def)

subsection \<open>The prefix tree\<close>

lemma trie_Get_NewTrie: "trie_Get NewTrie k = None"
  by (simp add: trie_Get_def NewTrie_def)

lemma trie_Get_Set: "trie_Get (trie_Set k item t) k' = (if k' = k then Some item else trie_Get t k')"
  by (induction t) (auto simp: trie_Get_def trie_Set_def)

lemma trie_Get_None_iff: "trie_Get t k = None \<longleftrightarrow> (\<forall>e\<in>set t. fst e \<noteq> k)"
  by (induction t) (auto simp: trie_Get_def)

lemma trie_Delete_removed: "fst (trie_Delete k t) \<longleftrightarrow> trie_Get t k \<noteq> None"
  by (auto simp: trie_Delete_def trie_Get_None_iff list_ex_iff)

lemma trie_Get_Delete: "trie_Get (snd (trie_Delete k t)) k' = (if k' = k then None else trie_Get t k')"
  by (induction t) (auto simp: trie_Get_def trie_Delete_def)

lemma trie_Delete_absent: "trie_Get t k = None \<Longrightarrow> trie_Delete k t = (False, t)"
  by (induction t) (auto simp: trie_Get_def trie_Delete_def split: if_splits)

lemma trie_MatchSubtree_iff:
  "trie_MatchSubtree t key \<longleftrightarrow> (\<exists>k. trie_Get t k \<noteq> None \<and> prefix key k)"
  by (auto simp: trie_MatchSubtree_def list_ex_iff trie_Get_None_iff)

subsection \<open>The resolver\<close>

lemma Binding_loop_exact:
  "\<forall>u\<in>set xs. lookup m u key = None \<Longrightarrow> lookup m v key = Some b \<Longrightarrow>
   Binding_loop m key (xs @ v # ys) p = (b, False)"
  by (induction xs arbitrary: p) (auto simp: lookup_def split: option.splits)

lemma Binding_loop_none:
  "\<forall>u\<in>set vs. lookup m u key = None \<Longrightarrow>
   Binding_loop m key vs p = (newActionBinding ActionNone, p \<or> (\<exists>u\<in>set vs. hasPrefix m u key))"
  by (induction vs arbitrary: p) (auto simp: lookup_def hasPrefix_def split: option.splits)

lemma hasPrefix_strict:
  "lookup m v key = None \<Longrightarrow>
   hasPrefix m v key \<longleftrightarrow> (\<exists>k. lookup m v k \<noteq> None \<and> strict_prefix key k)"
  by (auto simp: lookup_def hasPrefix_def trie_MatchSubtree_iff strict_prefix_def split: option.splits)

text \<open>What \<open>RemoveBinding\<close> looks up: the scope's own entry, else the catch-all's.\<close>

lemma Binding_single:
  "fst (Binding m [v] key) =
   (case lookup m v key of
      Some b \<Rightarrow> b
    | None \<Rightarrow> (case lookup m ViewAll key of Some b \<Rightarrow> b | None \<Rightarrow> newActionBinding ActionNone))"
  by (auto simp: Binding_def lookup_def split: option.splits)

subsection \<open>Frame lemmas of the mutating methods\<close>

lemma bindings_updateHelpFormat: "bindings (updateHelpFormat a v k m) = bindings m"
  by (simp add: updateHelpFormat_def Let_def)

lemma flag_updateHelpFormat:
  "KeyBindingManager.userDefinedBinding (updateHelpFormat a v k m) = KeyBindingManager.userDefinedBinding m"
  by (simp add: updateHelpFormat_def Let_def)

lemma KeyStrings_updateHelpFormat:
  "KeyStrings (updateHelpFormat a v k m) a' v' =
   KeyStrings m a' v' @
   (if a' = a \<and> v' = v \<and> \<not> prefix ''<grv-'' k
    then [\<lparr>keystring = k, userDefinedBinding = KeyBindingManager.userDefinedBinding m\<rparr>] else [])"
  by (auto simp: updateHelpFormat_def KeyStrings_def Let_def split: option.splits)

lemma bindings_SetActionBinding:
  "bindings (SetActionBinding v k a m) =
   (bindings m)(v \<mapsto> trie_Set k (newActionBinding a) (case bindings m v of None \<Rightarrow> NewTrie | Some t \<Rightarrow> t))"
  by (simp add: SetActionBinding_def getOrCreateViewBindings_def bindings_updateHelpFormat split: option.splits)

lemma lookup_SetActionBinding:
  "lookup (SetActionBinding v k a m) v' k' =
   (if v' = v \<and> k' = k then Some (newActionBinding a) else lookup m v' k')"
  by (auto simp: lookup_def bindings_SetActionBinding trie_Get_Set trie_Get_NewTrie split: option.splits)

lemma flag_SetActionBinding:
  "KeyBindingManager.userDefinedBinding (SetActionBinding v k a m) = KeyBindingManager.userDefinedBinding m"
  by (simp add: SetActionBinding_def getOrCreateViewBindings_def flag_updateHelpFormat split: option.splits)


lemma KeyStrings_bindings_update: "KeyStrings (m\<lparr>bindings := f\<rparr>) a v = KeyStrings m a v"
  by (simp add: KeyStrings_def)

lemma KeyStrings_SetActionBinding:
  "KeyStrings (SetActionBinding v k a m) a' v' =
   KeyStrings m a' v' @
   (if a' = a \<and> v' = v \<and> \<not> prefix ''<grv-'' k
    then [\<lparr>keystring = k, userDefinedBinding = KeyBindingManager.userDefinedBinding m\<rparr>] else [])"
  by (simp add: SetActionBinding_def getOrCreateViewBindings_def KeyStrings_updateHelpFormat
      KeyStrings_bindings_update split: option.splits)

lemma bindings_removeHelpFormatEntry: "bindings (removeHelpFormatEntry b v k m) = bindings m"
  by (simp add: removeHelpFormatEntry_def Let_def split: option.splits)

lemma flag_removeHelpFormatEntry:
  "KeyBindingManager.userDefinedBinding (removeHelpFormatEntry b v k m) = KeyBindingManager.userDefinedBinding m"
  by (simp add: removeHelpFormatEntry_def Let_def split: option.splits)

lemma KeyStrings_removeHelpFormatEntry_action:
  "KeyStrings (removeHelpFormatEntry (newActionBinding a) v k m) a' v' =
   (if a' = a \<and> v' = v then filter (\<lambda>e. BoundKeyString.keystring e \<noteq> k) (KeyStrings m a' v')
    else KeyStrings m a' v')"
  by (auto simp: removeHelpFormatEntry_def newActionBinding_def KeyStrings_def split: option.splits)

lemma KeyStrings_removeHelpFormatEntry_cases:
  "KeyStrings (removeHelpFormatEntry b v k m) a' v' = KeyStrings m a' v' \<or>
   KeyStrings (removeHelpFormatEntry b v k m) a' v' =
     filter (\<lambda>e. BoundKeyString.keystring e \<noteq> k) (KeyStrings m a' v')"
  by (auto simp: removeHelpFormatEntry_def KeyStrings_def Let_def split: option.splits BindingType.splits)

lemma bindings_RemoveBinding:
  "bindings (snd (RemoveBinding v k m)) =
   (case bindings m v of None \<Rightarrow> bindings m | Some t \<Rightarrow> (bindings m)(v \<mapsto> snd (trie_Delete k t)))"
  by (simp add: RemoveBinding_def Let_def bindings_removeHelpFormatEntry split_beta split: option.splits)

lemma lookup_RemoveBinding:
  "lookup (snd (RemoveBinding v k m)) v' k' = (if v' = v \<and> k' = k then None else lookup m v' k')"
  by (auto simp: lookup_def bindings_RemoveBinding trie_Get_Delete split: option.splits)

lemma removed_RemoveBinding: "fst (RemoveBinding v k m) \<longleftrightarrow> lookup m v k \<noteq> None"
  by (simp add: RemoveBinding_def Let_def split_beta lookup_def trie_Delete_removed split: option.splits)

lemma flag_RemoveBinding:
  "KeyBindingManager.userDefinedBinding (snd (RemoveBinding v k m)) = KeyBindingManager.userDefinedBinding m"
  by (simp add: RemoveBinding_def Let_def split_beta flag_removeHelpFormatEntry split: option.splits)

lemma KeyStrings_removeHelpFormatEntry_bindings:
  "KeyStrings (removeHelpFormatEntry b v k (m\<lparr>bindings := f\<rparr>)) a' v' =
   KeyStrings (removeHelpFormatEntry b v k m) a' v'"
  by (simp add: removeHelpFormatEntry_def KeyStrings_def Let_def split: option.splits)

lemma KeyStrings_RemoveBinding:
  "KeyStrings (snd (RemoveBinding v k m)) a' v' =
   (if actionType (fst (Binding m [v] k)) \<noteq> ActionNone \<or> Binding.keystring (fst (Binding m [v] k)) \<noteq> []
    then KeyStrings (removeHelpFormatEntry (fst (Binding m [v] k)) v k m) a' v'
    else KeyStrings m a' v')"
  by (simp add: RemoveBinding_def Let_def split_beta KeyStrings_bindings_update
      KeyStrings_removeHelpFormatEntry_bindings split: option.splits)

lemma KeyStrings_RemoveBinding_cases:
  "KeyStrings (snd (RemoveBinding v k m)) a' v' = KeyStrings m a' v' \<or>
   KeyStrings (snd (RemoveBinding v k m)) a' v' =
     filter (\<lambda>e. BoundKeyString.keystring e \<noteq> k) (KeyStrings m a' v')"
  using KeyStrings_removeHelpFormatEntry_cases [of "fst (Binding m [v] k)" v k m a' v']
  by (simp add: KeyStrings_RemoveBinding)

text \<open>When the binding that \<open>RemoveBinding\<close> finds is an action binding.\<close>

lemma KeyStrings_RemoveBinding_action:
  assumes "fst (Binding m [v] k) = newActionBinding a"
  shows "KeyStrings (snd (RemoveBinding v k m)) a' v' =
    (if a \<noteq> ActionNone \<and> a' = a \<and> v' = v
     then filter (\<lambda>e. BoundKeyString.keystring e \<noteq> k) (KeyStrings m a' v')
     else KeyStrings m a' v')"
proof -
  have "actionType (newActionBinding a) = a" "Binding.keystring (newActionBinding a) = []"
    by (simp_all add: newActionBinding_def)
  with assms show ?thesis
    by (simp add: KeyStrings_RemoveBinding KeyStrings_removeHelpFormatEntry_action)
qed

lemma RemoveBinding_unbound:
  assumes "lookup m v k = None" and "lookup m ViewAll k = None"
  shows "RemoveBinding v k m = (False, m)"
proof -
  have b: "fst (Binding m [v] k) = newActionBinding ActionNone"
    using assms by (simp add: Binding_single)
  show ?thesis
  proof (cases "bindings m v")
    case None
    with b show ?thesis by (simp add: RemoveBinding_def newActionBinding_def)
  next
    case (Some t)
    with assms(1) have "trie_Delete k t = (False, t)"
      by (simp add: lookup_def trie_Delete_absent)
    moreover from Some have "(bindings m)(v \<mapsto> t) = bindings m" by (simp add: fun_upd_idem)
    ultimately show ?thesis using b Some by (simp add: RemoveBinding_def newActionBinding_def)
  qed
qed

lemma bindings_SetKeystringBinding:
  "bindings (SetKeystringBinding v k mk m) =
   (let bs = bindings (snd (RemoveBinding v k m))
    in bs(v \<mapsto> trie_Set k (newKeystringBinding mk) (case bs v of None \<Rightarrow> NewTrie | Some t \<Rightarrow> t)))"
  by (simp add: SetKeystringBinding_def getOrCreateViewBindings_def bindings_updateHelpFormat Let_def
      split: option.splits)

lemma lookup_SetKeystringBinding:
  "lookup (SetKeystringBinding v k mk m) v' k' =
   (if v' = v \<and> k' = k then Some (newKeystringBinding mk) else lookup m v' k')"
proof -
  have "lookup (SetKeystringBinding v k mk m) v' k' =
    (if v' = v \<and> k' = k then Some (newKeystringBinding mk) else lookup (snd (RemoveBinding v k m)) v' k')"
    by (auto simp: lookup_def bindings_SetKeystringBinding Let_def trie_Get_Set trie_Get_NewTrie
        split: option.splits)
  then show ?thesis by (simp add: lookup_RemoveBinding)
qed

lemma flag_SetKeystringBinding:
  "KeyBindingManager.userDefinedBinding (SetKeystringBinding v k mk m) = KeyBindingManager.userDefinedBinding m"
  by (simp add: SetKeystringBinding_def getOrCreateViewBindings_def Let_def flag_updateHelpFormat
      flag_RemoveBinding split: option.splits)

lemma KeyStrings_SetKeystringBinding:
  "KeyStrings (SetKeystringBinding v k mk m) a' v' =
   KeyStrings (snd (RemoveBinding v k m)) a' v' @
   (if actionKeys mk = Some a' \<and> v' = v \<and> \<not> prefix ''<grv-'' k
    then [\<lparr>keystring = k, userDefinedBinding = KeyBindingManager.userDefinedBinding m\<rparr>] else [])"
  by (simp add: SetKeystringBinding_def getOrCreateViewBindings_def Let_def KeyStrings_updateHelpFormat
      KeyStrings_bindings_update flag_RemoveBinding split: option.splits)

subsection \<open>The constructor and the reachable states\<close>

lemma fold_concat_map: "fold f (concat (map g xs)) = fold (\<lambda>x. fold f (g x)) xs"
  by (induction xs) simp_all

lemma setDefaultKeyBindings_defaultBindings:
  "setDefaultKeyBindings p sp rp m =
   fold (\<lambda>(viewID, key, a). SetActionBinding viewID key a) (defaultBindings (actionDescriptors p sp rp)) m"
  by (simp add: setDefaultKeyBindings_def defaultBindings_def Let_def fold_concat_map fold_map
      comp_def split_def)

lemma flag_fold_SetActionBinding:
  "KeyBindingManager.userDefinedBinding (fold (\<lambda>(viewID, key, a). SetActionBinding viewID key a) bs m) =
   KeyBindingManager.userDefinedBinding m"
  by (induction bs arbitrary: m) (simp_all add: split_beta flag_SetActionBinding)

lemma KeyStrings_fold_SetActionBinding:
  "KeyStrings (fold (\<lambda>(viewID, key, a). SetActionBinding viewID key a) bs m) a' v' =
   KeyStrings m a' v' @
   map (\<lambda>(viewID, key, a). \<lparr>keystring = key, userDefinedBinding = KeyBindingManager.userDefinedBinding m\<rparr>)
     (filter (\<lambda>(viewID, key, a). a' = a \<and> v' = viewID \<and> \<not> prefix ''<grv-'' key) bs)"
  by (induction bs arbitrary: m)
    (simp_all add: split_beta KeyStrings_SetActionBinding flag_SetActionBinding)

text \<open>
  Whatever the order and the contents of the calls made while the flag is unset, the
  entries they append carry \<open>false\<close>.
\<close>

lemma fold_SetActionBinding_not_user_defined:
  assumes "\<not> KeyBindingManager.userDefinedBinding m"
    and "\<forall>e\<in>set (KeyStrings m a v). \<not> BoundKeyString.userDefinedBinding e"
  shows "\<forall>e\<in>set (KeyStrings (fold (\<lambda>(viewID, key, a). SetActionBinding viewID key a) bs m) a v).
           \<not> BoundKeyString.userDefinedBinding e"
  using assms by (auto simp: KeyStrings_fold_SetActionBinding)

lemma flag_setDefaultKeyBindings:
  "KeyBindingManager.userDefinedBinding (setDefaultKeyBindings p sp rp m) = KeyBindingManager.userDefinedBinding m"
  by (simp add: setDefaultKeyBindings_defaultBindings flag_fold_SetActionBinding)

lemma lookup_fold_SetActionBinding:
  "lookup (fold (\<lambda>(viewID, key, a). SetActionBinding viewID key a) bs m) v' k' = None \<longleftrightarrow>
   lookup m v' k' = None \<and> (v', k') \<notin> set (map (\<lambda>(viewID, key, a). (viewID, key)) bs)"
  by (induction bs arbitrary: m) (auto simp: split_beta lookup_SetActionBinding)

lemma KeyStrings_flag_update:
  "KeyStrings (m\<lparr>userDefinedBinding := f\<rparr>) a v = KeyStrings m a v"
  by (simp add: KeyStrings_def)

lemma lookup_flag_update:
  "lookup (m\<lparr>userDefinedBinding := f\<rparr>) v k = lookup m v k"
  by (simp add: lookup_def)

lemma KeyStrings_NewKeyBindingManager:
  "KeyStrings (NewKeyBindingManager p sp rp) a' v' =
   map (\<lambda>(viewID, key, a). \<lparr>keystring = key, userDefinedBinding = False\<rparr>)
     (filter (\<lambda>(viewID, key, a). a' = a \<and> v' = viewID \<and> \<not> prefix ''<grv-'' key)
        (defaultBindings (actionDescriptors p sp rp)))"
proof -
  have "KeyStrings \<lparr>bindings = Map.empty, helpFormat = Map.empty, userDefinedBinding = False\<rparr> a' v' = []"
    by (simp add: KeyStrings_def)
  then show ?thesis
    by (simp add: NewKeyBindingManager_def Let_def KeyStrings_flag_update
        setDefaultKeyBindings_defaultBindings KeyStrings_fold_SetActionBinding)
qed

lemma lookup_NewKeyBindingManager:
  "lookup (NewKeyBindingManager p sp rp) v' k' = None \<longleftrightarrow>
   (v', k') \<notin> set (map (\<lambda>(viewID, key, a). (viewID, key)) (defaultBindings (actionDescriptors p sp rp)))"
proof -
  have "lookup \<lparr>bindings = Map.empty, helpFormat = Map.empty, userDefinedBinding = False\<rparr> v' k' = None"
    by (simp add: lookup_def)
  then show ?thesis
    by (simp add: NewKeyBindingManager_def Let_def lookup_flag_update
        setDefaultKeyBindings_defaultBindings lookup_fold_SetActionBinding del: set_map)
qed

lemma flag_NewKeyBindingManager: "KeyBindingManager.userDefinedBinding (NewKeyBindingManager p sp rp)"
  by (simp add: NewKeyBindingManager_def Let_def)

lemma reachable_flag: "reachable m \<Longrightarrow> KeyBindingManager.userDefinedBinding m"
  by (induction rule: reachable.induct)
    (simp_all add: flag_NewKeyBindingManager flag_SetActionBinding flag_SetKeystringBinding flag_RemoveBinding)

lemmas ActionType_defs = ActionNone_def ActionExit_def ActionSuspend_def ActionRunCommand_def
  ActionPrompt_def ActionSearchPrompt_def ActionReverseSearchPrompt_def ActionFilterPrompt_def
  ActionQuestionPrompt_def ActionBranchNamePrompt_def ActionSearch_def ActionReverseSearch_def
  ActionSearchFindNext_def ActionSearchFindPrev_def ActionClearSearch_def ActionShowStatus_def
  ActionNextLine_def ActionPrevLine_def ActionNextPage_def ActionPrevPage_def
  ActionNextHalfPage_def ActionPrevHalfPage_def ActionScrollRight_def ActionScrollLeft_def
  ActionFirstLine_def ActionLastLine_def ActionSelect_def ActionNextView_def ActionPrevView_def
  ActionFullScreenView_def ActionToggleViewLayout_def ActionNextTab_def ActionPrevTab_def
  ActionRemoveView_def ActionAddFilter_def ActionRemoveFilter_def ActionCenterView_def
  ActionScrollCursorTop_def ActionScrollCursorBottom_def ActionCursorTopView_def
  ActionCursorMiddleView_def ActionCursorBottomView_def ActionNewTab_def ActionRemoveTab_def
  ActionAddView_def ActionSplitView_def ActionMouseSelect_def ActionMouseScrollDown_def
  ActionMouseScrollUp_def ActionCheckoutRef_def ActionCheckoutCommit_def ActionCreateBranch_def
  ActionCreateContextMenu_def ActionCreateCommandOutputView_def ActionShowAvailableActions_def
  ActionStageFile_def ActionUnstageFile_def ActionCommit_def ActionShowHelpView_def

lemma trie_MatchSubtree_Set:
  "trie_MatchSubtree (trie_Set k item t) key \<longleftrightarrow> prefix key k \<or> trie_MatchSubtree t key"
  by (auto simp: trie_MatchSubtree_iff trie_Get_Set)

lemma trie_MatchSubtree_NewTrie: "\<not> trie_MatchSubtree NewTrie key"
  by (simp add: trie_MatchSubtree_def NewTrie_def)

lemma hasPrefix_SetActionBinding:
  "hasPrefix (SetActionBinding v k a m) v' key \<longleftrightarrow> (v' = v \<and> prefix key k) \<or> hasPrefix m v' key"
  by (auto simp: hasPrefix_def bindings_SetActionBinding trie_MatchSubtree_Set
      trie_MatchSubtree_NewTrie split: option.splits)

lemmas table_defs = defaultBindings_def actionDescriptors_def actionKeys_init_def

text \<open>Facts about the constructed state at the prompt texts \<open>:\<close>, \<open>/\<close> and \<open>?\<close>.\<close>

lemma lookup_ViewRef_g: "lookup (NewKeyBindingManager '':'' ''/'' ''?'') ViewRef ''g'' = None"
  by (simp add: lookup_NewKeyBindingManager table_defs)

lemma lookup_x:
  "lookup (NewKeyBindingManager '':'' ''/'' ''?'') ViewAll ''x'' = None"
  "lookup (NewKeyBindingManager '':'' ''/'' ''?'') (ViewOther 0) ''x'' = None"
  by (simp_all add: lookup_NewKeyBindingManager table_defs)

lemma no_extension_of_x:
  "lookup (NewKeyBindingManager '':'' ''/'' ''?'') v k \<noteq> None \<Longrightarrow> \<not> strict_prefix ''x'' k"
  by (auto simp add: lookup_NewKeyBindingManager table_defs)

lemma Binding_single_SetActionBinding:
  "fst (Binding (SetActionBinding S K A m) [S] K) = newActionBinding A"
  by (simp add: Binding_single lookup_SetActionBinding)

text \<open>The sibling path: \<open>SetKeystringBinding\<close> prunes the help entry of the binding it replaces.\<close>

lemma SetKeystringBinding_overwrite_prunes_help:
  assumes "A \<noteq> ActionNone" and "actionKeys mk \<noteq> Some A"
  shows "K \<notin> BoundKeyString.keystring ` set (KeyStrings (SetKeystringBinding S K mk (SetActionBinding S K A m)) A S)"
  using assms
  by (auto simp: KeyStrings_SetKeystringBinding
      KeyStrings_RemoveBinding_action [OF Binding_single_SetActionBinding])

lemma KeyStrings_empty_ViewOther:
  "KeyStrings (NewKeyBindingManager '':'' ''/'' ''?'') a (ViewOther n) = []"
  by (simp add: KeyStrings_NewKeyBindingManager table_defs)

lemma KeyStrings_Suspend:
  "KeyStrings (NewKeyBindingManager '':'' ''/'' ''?'') ActionSuspend ViewAll =
   [\<lparr>keystring = ''<C-z>'', userDefinedBinding = False\<rparr>]"
  by (simp add: KeyStrings_NewKeyBindingManager table_defs ActionType_defs)

lemma actionKeys_suspend: "actionKeys ''<grv-suspend>'' = Some ActionSuspend"
  by (simp add: actionKeys_def actionKeys_init_def actionDescriptors_def)

section \<open>The resolver's contract\<close>

text \<open>
  Claim C1. For every scope \<open>S\<close>, key sequence \<open>K\<close> and action \<open>A\<close>, and from every state of
  the manager: after \<open>SetActionBinding S K A\<close>, resolving \<open>K\<close> in the hierarchy \<open>[S]\<close> returns
  the action binding of \<open>A\<close>, that is the \<open>Binding\<close> with \<open>bindingType = BtAction\<close> and
  \<open>actionType = A\<close>, with \<open>isPrefix = false\<close>. A binding installed before at \<open>(S, K)\<close> is
  overwritten: of two calls in a row the second one wins.
\<close>

theorem Binding_after_SetActionBinding:
  "Binding (SetActionBinding S K A m) [S] K =
     (\<lparr>bindingType = BtAction, actionType = A, keystring = []\<rparr>, False) \<and>
   Binding (SetActionBinding S K A2 (SetActionBinding S K A1 m)) [S] K =
     (\<lparr>bindingType = BtAction, actionType = A2, keystring = []\<rparr>, False)"
proof -
  have "Binding (SetActionBinding S K B m') [S] K = (newActionBinding B, False)" for B m'
    unfolding Binding_def
    using Binding_loop_exact [of "[]" _ K S _ "[ViewAll]" False]
    by (simp add: lookup_SetActionBinding)
  then show ?thesis
    by (simp add: newActionBinding_def)
qed

text \<open>
  Claim C2. For every hierarchy and input \<open>K\<close>: when some scope of the hierarchy, the
  catch-all appended last, has an exact entry for \<open>K\<close>, \<open>Binding\<close> returns the entry of the
  earliest such scope with \<open>isPrefix = false\<close>. Nothing is asked of the later scopes, so
  the result stands also when one of them has an exact entry for \<open>K\<close> itself.
\<close>

theorem Binding_earliest_exact_match:
  assumes "viewHierarchy @ [ViewAll] = earlier @ viewID # later"
    and "\<forall>u\<in>set earlier. lookup m u K = None"
    and "lookup m viewID K = Some b"
  shows "Binding m viewHierarchy K = (b, False)"
  unfolding Binding_def using assms by (simp add: Binding_loop_exact)

theorem Binding_earliest_exact_match_witness:
  "lookup (SetActionBinding ViewAll ''ab'' ActionPrevLine
       (SetActionBinding ViewRef ''ab'' ActionNextLine (NewKeyBindingManager '':'' ''/'' ''?'')))
     ViewRef ''ab'' = Some (newActionBinding ActionNextLine) \<and>
   lookup (SetActionBinding ViewAll ''ab'' ActionPrevLine
       (SetActionBinding ViewRef ''ab'' ActionNextLine (NewKeyBindingManager '':'' ''/'' ''?'')))
     ViewAll ''ab'' = Some (newActionBinding ActionPrevLine) \<and>
   Binding (SetActionBinding ViewAll ''ab'' ActionPrevLine
       (SetActionBinding ViewRef ''ab'' ActionNextLine (NewKeyBindingManager '':'' ''/'' ''?'')))
     [ViewRef] ''ab'' = (newActionBinding ActionNextLine, False)"
  using Binding_earliest_exact_match [of "[ViewRef]" "[]" ViewRef "[ViewAll]"
      "SetActionBinding ViewAll ''ab'' ActionPrevLine
         (SetActionBinding ViewRef ''ab'' ActionNextLine (NewKeyBindingManager '':'' ''/'' ''?''))"
      "''ab''" "newActionBinding ActionNextLine"]
  by (simp add: lookup_SetActionBinding)

text \<open>
  Claim C3. An exact entry for the input in a later scope of the hierarchy (the catch-all
  included) wins over the prefix signal of an earlier scope: when an earlier scope holds
  only a longer sequence that extends \<open>K\<close>, and the first scope with an exact entry for \<open>K\<close>
  comes later, \<open>Binding\<close> returns that entry with \<open>isPrefix = false\<close>. The witness is the
  example of the spec: \<open>gg\<close> bound in the view, \<open>g\<close> bound in the catch-all.
\<close>

theorem Binding_exact_beats_pending:
  assumes "viewHierarchy @ [ViewAll] = earlier @ viewID # later"
    and "\<forall>u\<in>set earlier. lookup m u K = None"
    and "u \<in> set earlier" and "hasPrefix m u K"
    and "lookup m viewID K = Some b"
  shows "Binding m viewHierarchy K = (b, False)"
  unfolding Binding_def using assms by (simp add: Binding_loop_exact)

theorem Binding_exact_beats_pending_witness:
  "lookup (SetActionBinding ViewAll ''g'' ActionPrevLine
       (SetActionBinding ViewRef ''gg'' ActionNextLine (NewKeyBindingManager '':'' ''/'' ''?'')))
     ViewRef ''g'' = None \<and>
   hasPrefix (SetActionBinding ViewAll ''g'' ActionPrevLine
       (SetActionBinding ViewRef ''gg'' ActionNextLine (NewKeyBindingManager '':'' ''/'' ''?'')))
     ViewRef ''g'' \<and>
   Binding (SetActionBinding ViewAll ''g'' ActionPrevLine
       (SetActionBinding ViewRef ''gg'' ActionNextLine (NewKeyBindingManager '':'' ''/'' ''?'')))
     [ViewRef] ''g'' = (newActionBinding ActionPrevLine, False)"
  using Binding_exact_beats_pending [of "[ViewRef]" "[ViewRef]" ViewAll "[]"
      "SetActionBinding ViewAll ''g'' ActionPrevLine
         (SetActionBinding ViewRef ''gg'' ActionNextLine (NewKeyBindingManager '':'' ''/'' ''?''))"
      "''g''" ViewRef "newActionBinding ActionPrevLine"]
  by (simp add: lookup_SetActionBinding hasPrefix_SetActionBinding lookup_ViewRef_g)

text \<open>
  Claim C4. For every hierarchy and input \<open>K\<close> with no exact entry in any consulted scope
  (the catch-all included), \<open>Binding\<close> returns the action binding of \<open>ActionNone\<close>, and
  \<open>isPrefix\<close> is true exactly when some consulted scope stores a sequence of which \<open>K\<close> is
  a strict prefix; so it is false when no scope recognises \<open>K\<close> at all.
\<close>

theorem Binding_no_exact_match:
  assumes "\<forall>u\<in>set (viewHierarchy @ [ViewAll]). lookup m u K = None"
  shows "Binding m viewHierarchy K =
    (newActionBinding ActionNone,
     \<exists>u\<in>set (viewHierarchy @ [ViewAll]). \<exists>k. lookup m u k \<noteq> None \<and> strict_prefix K k)"
  unfolding Binding_def using assms
  by (simp add: Binding_loop_none hasPrefix_strict del: set_append)

theorem Binding_no_exact_match_witness:
  "Binding (NewKeyBindingManager '':'' ''/'' ''?'') [ViewOther 0] ''x'' = (newActionBinding ActionNone, False) \<and>
   Binding (SetActionBinding (ViewOther 0) ''xq'' ActionNextLine (NewKeyBindingManager '':'' ''/'' ''?''))
     [ViewOther 0] ''x'' = (newActionBinding ActionNone, True)"
proof -
  let ?m0 = "NewKeyBindingManager '':'' ''/'' ''?''"
  let ?m1 = "SetActionBinding (ViewOther 0) ''xq'' ActionNextLine ?m0"
  have "\<forall>u\<in>set ([ViewOther 0] @ [ViewAll]). lookup ?m0 u ''x'' = None"
    by (simp add: lookup_x)
  from Binding_no_exact_match [OF this] have 1: "Binding ?m0 [ViewOther 0] ''x'' = (newActionBinding ActionNone, False)"
    using no_extension_of_x by auto
  have "\<forall>u\<in>set ([ViewOther 0] @ [ViewAll]). lookup ?m1 u ''x'' = None"
    by (simp add: lookup_x lookup_SetActionBinding)
  from Binding_no_exact_match [OF this]
  have "Binding ?m1 [ViewOther 0] ''x'' = (newActionBinding ActionNone,
     \<exists>u\<in>set ([ViewOther 0] @ [ViewAll]). \<exists>k. lookup ?m1 u k \<noteq> None \<and> strict_prefix ''x'' k)" .
  moreover have "lookup ?m1 (ViewOther 0) ''xq'' \<noteq> None \<and> strict_prefix ''x'' ''xq''"
    by (simp add: lookup_SetActionBinding)
  ultimately have 2: "Binding ?m1 [ViewOther 0] ''x'' = (newActionBinding ActionNone, True)"
    by auto
  from 1 2 show ?thesis by simp
qed

text \<open>
  Claim C5. For every scope \<open>S\<close> and sequences \<open>x\<close>, \<open>y\<close>, from every state:
  after \<open>SetKeystringBinding S x y\<close>, which first removes the binding of \<open>(S, x)\<close> and then
  installs the remap, resolving \<open>x\<close> in \<open>[S]\<close> returns the key string binding of \<open>y\<close>, that
  is the \<open>Binding\<close> with \<open>bindingType = BtKeystring\<close> and \<open>keystring = y\<close>, with
  \<open>isPrefix = false\<close>.
\<close>

theorem Binding_after_SetKeystringBinding:
  "Binding (SetKeystringBinding S x y m) [S] x =
     (\<lparr>bindingType = BtKeystring, actionType = ActionNone, keystring = y\<rparr>, False)"
proof -
  have "Binding (SetKeystringBinding S x y m) [S] x = (newKeystringBinding y, False)"
    unfolding Binding_def
    using Binding_loop_exact [of "[]" _ x S _ "[ViewAll]" False]
    by (simp add: lookup_SetKeystringBinding)
  then show ?thesis
    by (simp add: newKeystringBinding_def)
qed

section \<open>The help registry\<close>

text \<open>
  Claim C6, as amended. For every scope \<open>S\<close>, sequence \<open>K\<close> and action \<open>A\<close> other than
  \<open>ActionNone\<close>, from every state: after \<open>SetActionBinding S K A\<close> followed by
  \<open>RemoveBinding S K\<close>, no entry of \<open>KeyStrings A S\<close> has the sequence \<open>K\<close>.
\<close>

theorem RemoveBinding_prunes_help_of_action:
  assumes "A \<noteq> ActionNone"
  shows "K \<notin> BoundKeyString.keystring ` set (KeyStrings (snd (RemoveBinding S K (SetActionBinding S K A m))) A S)"
  using assms
  by (auto simp: KeyStrings_RemoveBinding_action [OF Binding_single_SetActionBinding])

theorem RemoveBinding_prunes_help_of_action_witness:
  "ActionExit \<noteq> ActionNone \<and>
   ''x'' \<in> BoundKeyString.keystring ` set (KeyStrings
       (SetActionBinding (ViewOther 0) ''x'' ActionExit (NewKeyBindingManager '':'' ''/'' ''?''))
       ActionExit (ViewOther 0)) \<and>
   ''x'' \<notin> BoundKeyString.keystring ` set (KeyStrings
       (snd (RemoveBinding (ViewOther 0) ''x''
          (SetActionBinding (ViewOther 0) ''x'' ActionExit (NewKeyBindingManager '':'' ''/'' ''?''))))
       ActionExit (ViewOther 0))"
  using RemoveBinding_prunes_help_of_action [of ActionExit "''x''" "ViewOther 0"
      "NewKeyBindingManager '':'' ''/'' ''?''"]
  by (simp add: KeyStrings_SetActionBinding ActionExit_def ActionNone_def)

text \<open>
  Claim C6 as stated, for every action, fails at \<open>ActionNone\<close>: \<open>RemoveBinding\<close> prunes the
  help entry only if \<open>binding.actionType != ActionNone || binding.keystring != ""\<close>, and
  the action binding of \<open>ActionNone\<close> does not pass this guard. The entry stays.
\<close>

theorem RemoveBinding_keeps_help_of_ActionNone:
  "KeyStrings
     (snd (RemoveBinding (ViewOther 0) ''x''
        (SetActionBinding (ViewOther 0) ''x'' ActionNone (NewKeyBindingManager '':'' ''/'' ''?''))))
     ActionNone (ViewOther 0) =
   [\<lparr>keystring = ''x'', userDefinedBinding = True\<rparr>]"
  by (simp add: KeyStrings_RemoveBinding_action [OF Binding_single_SetActionBinding]
      KeyStrings_SetActionBinding KeyStrings_empty_ViewOther flag_NewKeyBindingManager)

text \<open>
  Claim C7 says that \<open>RemoveBinding S K\<close>, in a reachable state where \<open>S\<close> has no entry for
  \<open>K\<close>, returns \<open>false\<close> and changes nothing. \<open>RemoveBinding\<close> finds the binding to prune
  through \<open>Binding\<close>, which falls back to the catch-all scope. In the state below the view
  has no entry for \<open>x\<close>, the catch-all binds \<open>x\<close> to \<open>ActionExit\<close>, and the help bucket of
  \<open>ActionExit\<close> in the view still lists \<open>x\<close> (left there by the overwrite of claim C8):
  the call returns \<open>false\<close>, and the bucket loses its entry.
\<close>

theorem RemoveBinding_unbound_prunes_help:
  "(let m = SetActionBinding ViewAll ''x'' ActionExit
       (snd (RemoveBinding (ViewOther 0) ''x''
          (SetActionBinding (ViewOther 0) ''x'' ActionSuspend
             (SetActionBinding (ViewOther 0) ''x'' ActionExit (NewKeyBindingManager '':'' ''/'' ''?'')))))
    in reachable m \<and>
       lookup m (ViewOther 0) ''x'' = None \<and>
       fst (RemoveBinding (ViewOther 0) ''x'' m) = False \<and>
       KeyStrings m ActionExit (ViewOther 0) = [\<lparr>keystring = ''x'', userDefinedBinding = True\<rparr>] \<and>
       KeyStrings (snd (RemoveBinding (ViewOther 0) ''x'' m)) ActionExit (ViewOther 0) = [])"
proof -
  let ?S = "ViewOther 0"
  let ?m0 = "NewKeyBindingManager '':'' ''/'' ''?''"
  let ?m1 = "SetActionBinding ?S ''x'' ActionExit ?m0"
  let ?m2 = "SetActionBinding ?S ''x'' ActionSuspend ?m1"
  let ?m3 = "snd (RemoveBinding ?S ''x'' ?m2)"
  let ?m4 = "SetActionBinding ViewAll ''x'' ActionExit ?m3"
  have r: "reachable ?m4"
    by (intro reachable.intros)
  have l: "lookup ?m4 ?S ''x'' = None"
    by (simp add: lookup_SetActionBinding lookup_RemoveBinding)
  have f: "fst (RemoveBinding ?S ''x'' ?m4) = False"
    using l by (simp add: removed_RemoveBinding)
  have k2: "KeyStrings ?m2 ActionExit ?S = [\<lparr>keystring = ''x'', userDefinedBinding = True\<rparr>]"
    by (simp add: KeyStrings_SetActionBinding KeyStrings_empty_ViewOther flag_NewKeyBindingManager
        flag_SetActionBinding ActionExit_def ActionSuspend_def)
  have k3: "KeyStrings ?m3 ActionExit ?S = KeyStrings ?m2 ActionExit ?S"
    by (simp add: KeyStrings_RemoveBinding_action [OF Binding_single_SetActionBinding]
        ActionExit_def ActionSuspend_def)
  have k4: "KeyStrings ?m4 ActionExit ?S = [\<lparr>keystring = ''x'', userDefinedBinding = True\<rparr>]"
    using k2 k3 by (simp add: KeyStrings_SetActionBinding)
  have b: "fst (Binding ?m4 [?S] ''x'') = newActionBinding ActionExit"
    using l by (simp add: Binding_single lookup_SetActionBinding)
  have n: "ActionExit \<noteq> ActionNone"
    by (simp add: ActionExit_def ActionNone_def)
  have k5: "KeyStrings (snd (RemoveBinding ?S ''x'' ?m4)) ActionExit ?S = []"
    using k4 n by (simp add: KeyStrings_RemoveBinding_action [OF b])
  from r l f k4 k5 show ?thesis by (simp add: Let_def)
qed

theorem RemoveBinding_unbound_prunes_help_witness:
  "reachable (SetActionBinding ViewAll ''x'' ActionExit
       (snd (RemoveBinding (ViewOther 0) ''x''
          (SetActionBinding (ViewOther 0) ''x'' ActionSuspend
             (SetActionBinding (ViewOther 0) ''x'' ActionExit (NewKeyBindingManager '':'' ''/'' ''?'')))))) \<and>
   KeyStrings (snd (RemoveBinding (ViewOther 0) ''x''
       (SetActionBinding ViewAll ''x'' ActionExit
          (snd (RemoveBinding (ViewOther 0) ''x''
             (SetActionBinding (ViewOther 0) ''x'' ActionSuspend
                (SetActionBinding (ViewOther 0) ''x'' ActionExit (NewKeyBindingManager '':'' ''/'' ''?''))))))))
     ActionExit (ViewOther 0) \<noteq>
   KeyStrings (SetActionBinding ViewAll ''x'' ActionExit
       (snd (RemoveBinding (ViewOther 0) ''x''
          (SetActionBinding (ViewOther 0) ''x'' ActionSuspend
             (SetActionBinding (ViewOther 0) ''x'' ActionExit (NewKeyBindingManager '':'' ''/'' ''?''))))))
     ActionExit (ViewOther 0)"
  using RemoveBinding_unbound_prunes_help by (simp add: Let_def)

text \<open>
  Claim C8 says that overwriting a binding prunes the help entry of the action bound
  before. \<open>SetActionBinding\<close> only appends to the help registry (\<open>SetKeystringBinding\<close>, its
  sibling, calls \<open>RemoveBinding\<close> first): after binding \<open>x\<close> to \<open>ActionExit\<close> and then to
  \<open>ActionSuspend\<close> in one view, \<open>x\<close> resolves to \<open>ActionSuspend\<close>, and \<open>KeyStrings\<close> of
  \<open>ActionExit\<close> in that view still lists \<open>x\<close>.
\<close>

theorem SetActionBinding_overwrite_keeps_help:
  "Binding (SetActionBinding (ViewOther 0) ''x'' ActionSuspend
       (SetActionBinding (ViewOther 0) ''x'' ActionExit (NewKeyBindingManager '':'' ''/'' ''?'')))
     [ViewOther 0] ''x'' = (newActionBinding ActionSuspend, False) \<and>
   KeyStrings (SetActionBinding (ViewOther 0) ''x'' ActionSuspend
       (SetActionBinding (ViewOther 0) ''x'' ActionExit (NewKeyBindingManager '':'' ''/'' ''?'')))
     ActionExit (ViewOther 0) = [\<lparr>keystring = ''x'', userDefinedBinding = True\<rparr>]"
proof -
  have "Binding (SetActionBinding (ViewOther 0) ''x'' ActionSuspend m) [ViewOther 0] ''x'' =
      (newActionBinding ActionSuspend, False)" for m
    unfolding Binding_def
    using Binding_loop_exact [of "[]" _ "''x''" "ViewOther 0" _ "[ViewAll]" False]
    by (simp add: lookup_SetActionBinding)
  then show ?thesis
    by (simp add: KeyStrings_SetActionBinding KeyStrings_empty_ViewOther flag_NewKeyBindingManager
        flag_SetActionBinding ActionExit_def ActionSuspend_def)
qed



text \<open>
  Claim C10. Every help entry made while \<open>NewKeyBindingManager\<close> loads the default
  bindings carries \<open>userDefinedBinding = false\<close>: the flag is still unset when the loading
  ends. The constructor returns with the flag set, and the flag stays set in every
  reachable state, so the entry that a later \<open>SetActionBinding\<close> or
  \<open>SetKeystringBinding\<close> appends carries \<open>userDefinedBinding = true\<close>; these appended
  entries are the only ones made (\<open>RemoveBinding\<close> makes none).
\<close>

theorem userDefinedBinding_of_help_entries:
  "(\<forall>e\<in>set (KeyStrings (NewKeyBindingManager p sp rp) a v). \<not> BoundKeyString.userDefinedBinding e) \<and>
   \<not> KeyBindingManager.userDefinedBinding (setDefaultKeyBindings p sp rp
       \<lparr>bindings = Map.empty, helpFormat = Map.empty, userDefinedBinding = False\<rparr>) \<and>
   KeyBindingManager.userDefinedBinding (NewKeyBindingManager p sp rp) \<and>
   (reachable m \<longrightarrow>
      KeyBindingManager.userDefinedBinding m \<and>
      KeyStrings (SetActionBinding viewID key a' m) a v =
        KeyStrings m a v @
        (if a = a' \<and> v = viewID \<and> \<not> prefix ''<grv-'' key
         then [\<lparr>keystring = key, userDefinedBinding = True\<rparr>] else []) \<and>
      KeyStrings (SetKeystringBinding viewID key mappedKeystring m) a v =
        KeyStrings (snd (RemoveBinding viewID key m)) a v @
        (if actionKeys mappedKeystring = Some a \<and> v = viewID \<and> \<not> prefix ''<grv-'' key
         then [\<lparr>keystring = key, userDefinedBinding = True\<rparr>] else []) \<and>
      set (KeyStrings (snd (RemoveBinding viewID key m)) a v) \<subseteq> set (KeyStrings m a v))"
proof -
  have 1: "\<forall>e\<in>set (KeyStrings (NewKeyBindingManager p sp rp) a v). \<not> BoundKeyString.userDefinedBinding e"
    by (auto simp: KeyStrings_NewKeyBindingManager)
  have 2: "set (KeyStrings (snd (RemoveBinding viewID key m)) a v) \<subseteq> set (KeyStrings m a v)"
    using KeyStrings_RemoveBinding_cases [of viewID key m a v] by auto
  show ?thesis
    using 1 2 reachable_flag [of m]
    by (simp add: flag_NewKeyBindingManager flag_setDefaultKeyBindings KeyStrings_SetActionBinding
        KeyStrings_SetKeystringBinding)
qed

theorem userDefinedBinding_of_help_entries_witness:
  "\<lparr>keystring = ''<C-z>'', userDefinedBinding = False\<rparr>
     \<in> set (KeyStrings (NewKeyBindingManager '':'' ''/'' ''?'') ActionSuspend ViewAll) \<and>
   reachable (NewKeyBindingManager '':'' ''/'' ''?'') \<and>
   KeyStrings (SetActionBinding ViewAll ''x'' ActionSuspend (NewKeyBindingManager '':'' ''/'' ''?''))
     ActionSuspend ViewAll =
   [\<lparr>keystring = ''<C-z>'', userDefinedBinding = False\<rparr>,
    \<lparr>keystring = ''x'', userDefinedBinding = True\<rparr>] \<and>
   KeyStrings (SetKeystringBinding ViewAll ''x'' ''<grv-suspend>'' (NewKeyBindingManager '':'' ''/'' ''?''))
     ActionSuspend ViewAll =
   [\<lparr>keystring = ''<C-z>'', userDefinedBinding = False\<rparr>,
    \<lparr>keystring = ''x'', userDefinedBinding = True\<rparr>]"
proof -
  let ?m0 = "NewKeyBindingManager '':'' ''/'' ''?''"
  have r: "reachable ?m0"
    by (rule reachable.constructed)
  have u: "RemoveBinding ViewAll ''x'' ?m0 = (False, ?m0)"
    by (rule RemoveBinding_unbound) (rule lookup_x)+
  from userDefinedBinding_of_help_entries [of "'':''" "''/''" "''?''" ActionSuspend ViewAll ?m0
      ViewAll "''x''" ActionSuspend "''<grv-suspend>''"] r
  show ?thesis
    by (simp add: KeyStrings_Suspend actionKeys_suspend u)
qed

end
